theory Spec2Isabelle
  imports Main
begin

section \<open>The forwarding gateway of main.py\<close>

text \<open>
  The program is a FastAPI application with five routes that each make one outbound
  HTTP call through httpx and turn its outcome into an HTTP response. The embedding
  follows main.py handler by handler. Everything outside the repository (the network,
  httpx, the JSON parser, the traceback formatter, the process environment) enters as
  data: an environment record that says what the outbound call does, and response
  objects that carry what their accessors return. What FastAPI and Starlette do with
  the value a route hands back (serialising it to the body of the HTTP response) is
  part of every operation and is written out, since it can fail.
\<close>

subsection \<open>JSON values and Python's reading of them\<close>

text \<open>
  The floats that are not finite. Python's parser returns \<open>inf\<close> and \<open>-inf\<close> for
  numbers beyond the range of a double (\<open>1e400\<close>, \<open>-1e400\<close>) and for the literals
  \<open>Infinity\<close> and \<open>-Infinity\<close>, and \<open>nan\<close> for the literal \<open>NaN\<close>.
\<close>

datatype nonfinite = NaN | PosInf | NegInf

text \<open>
  A JSON value as Python holds it after parsing. \<open>JNull\<close> is Python's \<open>None\<close>,
  \<open>JInt\<close> an unbounded \<open>int\<close>, \<open>JFloat m e\<close> the finite float \<open>m * 2 ^ e\<close>,
  \<open>JNonFinite\<close> a float that is not finite. A \<open>str\<close> is \<open>JStr\<close> with its UTF-8
  bytes when it is text, and \<open>JStrU\<close> with its code points when it cannot be written
  as text: the parser returns a lone surrogate for an escape such as \<open>\ud800\<close>.
  A \<open>dict\<close> is \<open>JObj\<close>, in insertion order and each key once, or \<open>JObjU\<close> with
  its keys as code points when a key holds a lone surrogate.
\<close>

datatype json =
    JNull
  | JBool bool
  | JInt int
  | JFloat int int
  | JNonFinite nonfinite
  | JStr string
  | JStrU "nat list"
  | JArr "json list"
  | JObj "(string \<times> json) list"
  | JObjU "(nat list \<times> json) list"

text \<open>Python's truth value of an object, as \<open>if x\<close> and \<open>not x\<close> test it.\<close>

fun truthy :: "json \<Rightarrow> bool" where
  "truthy JNull = False"
| "truthy (JBool b) = b"
| "truthy (JInt n) = (n \<noteq> 0)"
| "truthy (JFloat m e) = (m \<noteq> 0)"
| "truthy (JNonFinite x) = True"
| "truthy (JStr s) = (s \<noteq> [])"
| "truthy (JStrU cs) = (cs \<noteq> [])"
| "truthy (JArr xs) = (xs \<noteq> [])"
| "truthy (JObj kvs) = (kvs \<noteq> [])"
| "truthy (JObjU kvs) = (kvs \<noteq> [])"

text \<open>The name Python prints for the type of a value, as in an \<open>AttributeError\<close>.\<close>

fun py_type_name :: "json \<Rightarrow> string" where
  "py_type_name JNull = ''NoneType''"
| "py_type_name (JBool b) = ''bool''"
| "py_type_name (JInt n) = ''int''"
| "py_type_name (JFloat m e) = ''float''"
| "py_type_name (JNonFinite x) = ''float''"
| "py_type_name (JStr s) = ''str''"
| "py_type_name (JStrU cs) = ''str''"
| "py_type_name (JArr xs) = ''list''"
| "py_type_name (JObj kvs) = ''dict''"
| "py_type_name (JObjU kvs) = ''dict''"

text \<open>The value is a \<open>dict\<close>.\<close>

fun is_dict :: "json \<Rightarrow> bool" where
  "is_dict (JObj kvs) = True"
| "is_dict (JObjU kvs) = True"
| "is_dict v = False"

text \<open>The code points of an ASCII literal of the source.\<close>

definition codepoints :: "string \<Rightarrow> nat list" where
  "codepoints s = map of_char s"

subsection \<open>Serialising a value\<close>

text \<open>
  Starlette's \<open>JSONResponse.render\<close> is
  \<open>json.dumps(content, ensure_ascii=False, allow_nan=False, ...).encode("utf-8")\<close>.
  The encoder raises \<open>ValueError\<close> on a float that is not finite, and the encoding
  raises \<open>UnicodeEncodeError\<close> on a surrogate code point (U+D800 to U+DFFF), in a
  string or in a key.
\<close>

definition is_surrogate :: "nat \<Rightarrow> bool" where
  "is_surrogate c = (55296 \<le> c \<and> c \<le> 57343)"

fun renderable :: "json \<Rightarrow> bool" where
  "renderable JNull = True"
| "renderable (JBool b) = True"
| "renderable (JInt n) = True"
| "renderable (JFloat m e) = True"
| "renderable (JNonFinite x) = False"
| "renderable (JStr s) = True"
| "renderable (JStrU cs) = list_all (\<lambda>c. \<not> is_surrogate c) cs"
| "renderable (JArr xs) = list_all renderable xs"
| "renderable (JObj kvs) = list_all renderable (map snd kvs)"
| "renderable (JObjU kvs) =
     (list_all (\<lambda>k. list_all (\<lambda>c. \<not> is_surrogate c) k) (map fst kvs)
      \<and> list_all renderable (map snd kvs))"

text \<open>
  How deep the lists and dicts of a value are nested. The encoders recurse once per
  level and raise \<open>RecursionError\<close> when the interpreter's limit is reached.
\<close>

fun depth :: "json \<Rightarrow> nat" where
  "depth (JArr xs) = Suc (foldr max (map depth xs) 0)"
| "depth (JObj kvs) = Suc (foldr max (map depth (map snd kvs)) 0)"
| "depth (JObjU kvs) = Suc (foldr max (map depth (map snd kvs)) 0)"
| "depth v = 0"

subsection \<open>Upstream responses, exceptions, outbound calls\<close>

text \<open>
  An \<open>httpx.Response\<close> as the handlers read it: \<open>res.status_code\<close>, \<open>res.text\<close>
  and the outcome of \<open>res.json()\<close>, which is the parsed value or, when the body does
  not parse, the message of the exception it raises.
\<close>

record response =
  status_code :: int
  body_text :: string
  json_result :: "string + json"

text \<open>
  The exceptions the handlers tell apart, in the order of their \<open>except\<close> clauses:
  \<open>httpx.TimeoutException\<close> with \<open>str(e)\<close>, \<open>httpx.HTTPStatusError\<close> with
  \<open>e.response\<close> (httpx always sets it, and a response object is never false in
  Python), and every other \<open>Exception\<close> with \<open>str(e)\<close>.
\<close>

datatype exn =
    TimeoutException string
  | HTTPStatusError response
  | Exception string

datatype http_verb = GET | POST

text \<open>
  One outbound call: the verb, the URL, the \<open>json=\<close> body when there is one, the
  headers (the API key is \<open>os.getenv\<close>'s result and may be \<open>None\<close>), and the
  timeout in seconds the client was built with.
\<close>

record outbound_call =
  verb :: http_verb
  url :: string
  json_body :: "json option"
  headers :: "(string \<times> string option) list"
  timeout_s :: nat

text \<open>
  What lies outside the program: the API key of the process environment, what
  \<open>await client.get/post\<close> does with a call (returns a response or raises), what
  \<open>traceback.format_exc()\<close> prints for the exception being handled, how many
  levels of nesting beyond the first \<open>json.dumps\<close> and FastAPI's
  \<open>jsonable_encoder\<close> can take before the recursion limit, and \<open>str(e)\<close> of the
  exception raised for a value that cannot be serialised.
\<close>

record env =
  HEYGEN_API_KEY :: "string option"
  send :: "outbound_call \<Rightarrow> exn + response"
  format_exc :: "exn \<Rightarrow> string"
  dumps_depth :: nat
  encoder_depth :: nat
  render_error :: "json \<Rightarrow> string"

text \<open>An HTTP response of the proxy: a status code and a JSON body.\<close>

record JSONResponse =
  resp_status :: int
  content :: json

text \<open>\<open>JSONResponse.render\<close> returns for the value: it raises in no way.\<close>

definition renders :: "env \<Rightarrow> json \<Rightarrow> bool" where
  "renders e c = (renderable c \<and> depth c \<le> Suc (dumps_depth e))"

text \<open>
  \<open>JSONResponse(status_code=st, content=c)\<close>. Starlette renders the body when the
  object is built, so the expression itself raises for a value that does not render.
\<close>

definition JSONResponse_new :: "env \<Rightarrow> int \<Rightarrow> json \<Rightarrow> exn + JSONResponse" where
  "JSONResponse_new e st c =
     (if renders e c then Inr \<lparr>resp_status = st, content = c\<rparr>
      else Inl (Exception (render_error e c)))"

text \<open>
  FastAPI can turn a value that a route returned into the response: \<open>jsonable_encoder\<close>
  walks the value, then the default \<open>JSONResponse\<close> renders it.
\<close>

definition encodes :: "env \<Rightarrow> json \<Rightarrow> bool" where
  "encodes e c = (depth c \<le> Suc (encoder_depth e) \<and> renders e c)"

text \<open>
  What FastAPI makes of a value returned by a route: status 200 with the value as
  body. This runs after the route has returned, outside its \<open>try\<close>.
\<close>

definition fastapi_return :: "env \<Rightarrow> json \<Rightarrow> exn + JSONResponse" where
  "fastapi_return e c =
     (if depth c \<le> Suc (encoder_depth e) then JSONResponse_new e 200 c
      else Inl (Exception (render_error e c)))"

text \<open>
  What a \<open>try\<close> body returns: a value for FastAPI to serialise, or a response it
  built itself.
\<close>

datatype reply = Returned json | Built JSONResponse

definition built :: "exn + JSONResponse \<Rightarrow> exn + reply" where
  "built x = (case x of Inl err \<Rightarrow> Inl err | Inr r \<Rightarrow> Inr (Built r))"

text \<open>
  The result of an operation: the response or the exception that left it
  uncaught, and the outbound calls it made, in order.
\<close>

type_synonym outcome = "(exn + JSONResponse) \<times> outbound_call list"

definition BASE_URL :: string where
  "BASE_URL = ''https://api.heygen.com''"

definition RAG_API_URL :: string where
  "RAG_API_URL = ''https://rag-super-agent.onrender.com/chat/''"

text \<open>\<open>Response.is_success\<close> of httpx: the status is 2xx.\<close>

definition is_success :: "response \<Rightarrow> bool" where
  "is_success res = (200 \<le> status_code res \<and> status_code res \<le> 299)"

text \<open>\<open>res.raise_for_status()\<close>: raises \<open>HTTPStatusError\<close> unless the status is 2xx.\<close>

definition raise_for_status :: "response \<Rightarrow> exn + response" where
  "raise_for_status res = (if is_success res then Inr res else Inl (HTTPStatusError res))"

text \<open>\<open>res.json()\<close>: the parsed body, or the decoder's exception.\<close>

definition response_json :: "response \<Rightarrow> exn + json" where
  "response_json res = (case json_result res of Inl m \<Rightarrow> Inl (Exception m) | Inr j \<Rightarrow> Inr j)"

text \<open>
  Reading an attribute that only a \<open>dict\<close> has (\<open>get\<close>, \<open>keys\<close>) of a parsed
  value: any other value raises \<open>AttributeError\<close>.
\<close>

definition attribute_error :: "json \<Rightarrow> string \<Rightarrow> exn" where
  "attribute_error v a =
     Exception ([CHR 0x27] @ py_type_name v @ [CHR 0x27] @ '' object has no attribute ''
                @ [CHR 0x27] @ a @ [CHR 0x27])"

text \<open>\<open>data.get(key)\<close>: the value, \<open>None\<close> for a missing key.\<close>

definition py_get :: "json \<Rightarrow> string \<Rightarrow> exn + json" where
  "py_get data k =
     (case data of
        JObj kvs \<Rightarrow> Inr (case map_of kvs k of None \<Rightarrow> JNull | Some v \<Rightarrow> v)
      | JObjU kvs \<Rightarrow> Inr (case map_of kvs (codepoints k) of None \<Rightarrow> JNull | Some v \<Rightarrow> v)
      | _ \<Rightarrow> Inl (attribute_error data ''get''))"

text \<open>\<open>list(result.keys())\<close>.\<close>

definition py_keys :: "json \<Rightarrow> exn + json list" where
  "py_keys v =
     (case v of
        JObj kvs \<Rightarrow> Inr (map (\<lambda>kv. JStr (fst kv)) kvs)
      | JObjU kvs \<Rightarrow> Inr (map (\<lambda>kv. JStrU (fst kv)) kvs)
      | _ \<Rightarrow> Inl (attribute_error v ''keys''))"

subsection \<open>The helper \<open>heygen_get\<close>\<close>

definition heygen_get_call :: "env \<Rightarrow> string \<Rightarrow> outbound_call" where
  "heygen_get_call e endpoint =
     \<lparr>verb = GET, url = BASE_URL @ ''/'' @ endpoint, json_body = None,
      headers = [(''X-Api-Key'', HEYGEN_API_KEY e)], timeout_s = 60\<rparr>"

definition heygen_get :: "env \<Rightarrow> string \<Rightarrow> (exn + json) \<times> outbound_call list" where
  "heygen_get e endpoint =
     (let call = heygen_get_call e endpoint in
      (case send e call of
         Inl x \<Rightarrow> Inl x
       | Inr res \<Rightarrow>
           (case raise_for_status res of
              Inl x \<Rightarrow> Inl x
            | Inr _ \<Rightarrow> response_json res),
       [call]))"

subsection \<open>POST /streaming_token\<close>

definition streaming_token_call :: "env \<Rightarrow> outbound_call" where
  "streaming_token_call e =
     \<lparr>verb = POST, url = BASE_URL @ ''/v1/streaming.create_token'', json_body = None,
      headers = [(''X-Api-Key'', HEYGEN_API_KEY e),
                 (''Content-Type'', Some ''application/json'')],
      timeout_s = 60\<rparr>"

text \<open>
  The body of the \<open>try\<close>. The \<open>print\<close> calls write to the log only; the one in
  the success branch evaluates \<open>result.keys()\<close> first, which raises when the parsed
  body is not a \<open>dict\<close>.
\<close>

definition streaming_token_try :: "env \<Rightarrow> exn + reply" where
  "streaming_token_try e =
     (case send e (streaming_token_call e) of
        Inl x \<Rightarrow> Inl x
      | Inr res \<Rightarrow>
          if status_code res \<noteq> 200 then
            built (JSONResponse_new e (status_code res)
                     (JObj [(''error'', JStr (body_text res)),
                            (''status'', JInt (status_code res)),
                            (''details'', JStr ''Check backend logs'')]))
          else
            (case response_json res of
               Inl x \<Rightarrow> Inl x
             | Inr result \<Rightarrow>
                 (case py_keys result of
                    Inl x \<Rightarrow> Inl x
                  | Inr _ \<Rightarrow> Inr (Returned result))))"

text \<open>
  The \<open>except\<close> clauses, and FastAPI's serialisation of a returned value. An
  exception raised while an \<open>except\<close> clause builds its response, or while FastAPI
  serialises, is caught by nothing in the program.
\<close>

definition get_streaming_token :: "env \<Rightarrow> outcome" where
  "get_streaming_token e =
     (case streaming_token_try e of
        Inr (Built r) \<Rightarrow> Inr r
      | Inr (Returned result) \<Rightarrow> fastapi_return e result
      | Inl (TimeoutException m) \<Rightarrow>
          JSONResponse_new e 504 (JObj [(''error'', JStr (''Request timeout: '' @ m))])
      | Inl (HTTPStatusError r) \<Rightarrow>
          JSONResponse_new e (status_code r)
            (JObj [(''error'', JStr (body_text r)), (''status'', JInt (status_code r))])
      | Inl (Exception m) \<Rightarrow>
          JSONResponse_new e 500
            (JObj [(''error'', JStr m),
                   (''traceback'', JStr (format_exc e (Exception m)))]),
      [streaming_token_call e])"

subsection \<open>GET /avatars, /interactive_avatars, /voices\<close>

definition get_avatars :: "env \<Rightarrow> outcome" where
  "get_avatars e =
     (case heygen_get e ''v2/avatars'' of
        (Inr result, calls) \<Rightarrow> (fastapi_return e result, calls)
      | (Inl (TimeoutException m), calls) \<Rightarrow>
          (JSONResponse_new e 504 (JObj [(''error'', JStr (''Request timeout: '' @ m))]),
           calls)
      | (Inl (HTTPStatusError r), calls) \<Rightarrow>
          (JSONResponse_new e (status_code r) (JObj [(''error'', JStr (body_text r))]), calls)
      | (Inl (Exception m), calls) \<Rightarrow>
          (JSONResponse_new e 500
             (JObj [(''error'', JStr m),
                    (''traceback'', JStr (format_exc e (Exception m)))]), calls))"

definition get_interactive_avatars :: "env \<Rightarrow> outcome" where
  "get_interactive_avatars e =
     (case heygen_get e ''v1/streaming/avatar.list'' of
        (Inr result, calls) \<Rightarrow> (fastapi_return e result, calls)
      | (Inl (TimeoutException m), calls) \<Rightarrow>
          (JSONResponse_new e 504 (JObj [(''error'', JStr (''Request timeout: '' @ m))]),
           calls)
      | (Inl (HTTPStatusError r), calls) \<Rightarrow>
          (JSONResponse_new e (status_code r) (JObj [(''error'', JStr (body_text r))]), calls)
      | (Inl (Exception m), calls) \<Rightarrow>
          (JSONResponse_new e 500 (JObj [(''error'', JStr m)]), calls))"

definition get_voices :: "env \<Rightarrow> outcome" where
  "get_voices e =
     (case heygen_get e ''v2/voices'' of
        (Inr result, calls) \<Rightarrow> (fastapi_return e result, calls)
      | (Inl (TimeoutException m), calls) \<Rightarrow>
          (JSONResponse_new e 504 (JObj [(''error'', JStr (''Request timeout: '' @ m))]),
           calls)
      | (Inl (HTTPStatusError r), calls) \<Rightarrow>
          (JSONResponse_new e (status_code r) (JObj [(''error'', JStr (body_text r))]), calls)
      | (Inl (Exception m), calls) \<Rightarrow>
          (JSONResponse_new e 500 (JObj [(''error'', JStr m)]), calls))"

subsection \<open>POST /chat\<close>

text \<open>
  The inbound request as the handler reads it: the outcome of
  \<open>await request.json()\<close>, the parsed body or the message of the exception raised
  for a body that does not parse.
\<close>

record request =
  request_json :: "string + json"

definition chat_call :: "json \<Rightarrow> outbound_call" where
  "chat_call payload =
     \<lparr>verb = POST, url = RAG_API_URL, json_body = Some payload,
      headers = [(''Content-Type'', Some ''application/json'')], timeout_s = 120\<rparr>"

text \<open>
  \<open>payload = {"message": message}\<close>, then the key \<open>conversation_id\<close> when
  \<open>data.get("conversation_id")\<close> is true.
\<close>

definition chat_payload :: "json \<Rightarrow> json \<Rightarrow> json" where
  "chat_payload message cid =
     JObj ((''message'', message) #
           (if truthy cid then [(''conversation_id'', cid)] else []))"

text \<open>The body of the \<open>try\<close>.\<close>

definition chat_try :: "env \<Rightarrow> request \<Rightarrow> (exn + reply) \<times> outbound_call list" where
  "chat_try e req =
     (case request_json req of
        Inl m \<Rightarrow> (Inl (Exception m), [])
      | Inr data \<Rightarrow>
          (case py_get data ''message'' of
             Inl x \<Rightarrow> (Inl x, [])
           | Inr message \<Rightarrow>
               if \<not> truthy message then
                 (built (JSONResponse_new e 400
                           (JObj [(''error'', JStr ''Message is required'')])), [])
               else
                 (case py_get data ''conversation_id'' of
                    Inl x \<Rightarrow> (Inl x, [])
                  | Inr cid \<Rightarrow>
                      (let call = chat_call (chat_payload message cid) in
                       (case send e call of
                          Inl x \<Rightarrow> Inl x
                        | Inr res \<Rightarrow>
                            (case raise_for_status res of
                               Inl x \<Rightarrow> Inl x
                             | Inr _ \<Rightarrow>
                                 (case response_json res of
                                    Inl x \<Rightarrow> Inl x
                                  | Inr j \<Rightarrow> Inr (Returned j))),
                        [call])))))"

text \<open>
  The \<open>except\<close> clauses, and FastAPI's serialisation of a returned value. The
  clause for \<open>HTTPStatusError\<close> calls \<open>e.response.json()\<close> itself when the body text
  is not empty and builds the response from the parsed value; an exception raised
  there is raised inside the handler of the same \<open>try\<close>, which no later clause
  catches.
\<close>

definition chat :: "env \<Rightarrow> request \<Rightarrow> outcome" where
  "chat e req =
     (case chat_try e req of
        (Inr (Built r), calls) \<Rightarrow> (Inr r, calls)
      | (Inr (Returned j), calls) \<Rightarrow> (fastapi_return e j, calls)
      | (Inl (TimeoutException m), calls) \<Rightarrow>
          (JSONResponse_new e 504
             (JObj [(''error'',
                JStr (''Request timeout: '' @ m
                      @ ''. RAG API is taking too long to respond.''))]), calls)
      | (Inl (HTTPStatusError r), calls) \<Rightarrow>
          (if body_text r \<noteq> [] then
             (case response_json r of
                Inl x \<Rightarrow> Inl x
              | Inr j \<Rightarrow> JSONResponse_new e (status_code r) j)
           else
             JSONResponse_new e (status_code r) (JObj [(''error'', JStr (body_text r))]),
           calls)
      | (Inl (Exception m), calls) \<Rightarrow>
          (JSONResponse_new e 500 (JObj [(''error'', JStr m)]), calls))"

subsection \<open>Predicates on outcomes\<close>

text \<open>The body is a JSON object with an \<open>error\<close> key.\<close>

definition has_error_field :: "json \<Rightarrow> bool" where
  "has_error_field j = (case j of JObj kvs \<Rightarrow> map_of kvs ''error'' \<noteq> None | _ \<Rightarrow> False)"

text \<open>
  The response \<open>r\<close> forwards a successful call \<open>c\<close>: the upstream answered 2xx with a
  body that parses, and \<open>r\<close> is status 200 with the parsed body.
\<close>

definition forwarded :: "env \<Rightarrow> outbound_call \<Rightarrow> JSONResponse \<Rightarrow> bool" where
  "forwarded e c r =
     (case send e c of
        Inr res \<Rightarrow> is_success res \<and> json_result res = Inr (content r) \<and> resp_status r = 200
      | Inl x \<Rightarrow> False)"

text \<open>
  The response behind the \<open>HTTPStatusError\<close> that call \<open>c\<close> ends in, if it ends in
  one: a completed call with a status outside 2xx, for the handlers that call
  \<open>raise_for_status\<close>.
\<close>

definition status_error :: "env \<Rightarrow> outbound_call \<Rightarrow> response option" where
  "status_error e c =
     (case send e c of
        Inr res \<Rightarrow> if is_success res then None else Some res
      | Inl (HTTPStatusError res) \<Rightarrow> Some res
      | Inl _ \<Rightarrow> None)"

text \<open>The response \<open>r\<close> mirrors an upstream error: its status, and its parsed body.\<close>

definition mirrored :: "env \<Rightarrow> outbound_call \<Rightarrow> JSONResponse \<Rightarrow> bool" where
  "mirrored e c r =
     (case status_error e c of
        Some res \<Rightarrow> json_result res = Inr (content r) \<and> resp_status r = status_code res
      | None \<Rightarrow> False)"

text \<open>
  The one call made ended in an upstream error whose body is not empty and does not
  parse.
\<close>

definition unparsed_error_body :: "env \<Rightarrow> outbound_call list \<Rightarrow> bool" where
  "unparsed_error_body e calls =
     (case calls of
        [c] \<Rightarrow> (case status_error e c of
                  Some res \<Rightarrow> body_text res \<noteq> [] \<and> isl (json_result res)
                | None \<Rightarrow> False)
      | _ \<Rightarrow> False)"

text \<open>
  The one call made ended in an upstream error whose body is not empty and parses to
  a value that does not render.
\<close>

definition unrendered_error_body :: "env \<Rightarrow> outbound_call list \<Rightarrow> bool" where
  "unrendered_error_body e calls =
     (case calls of
        [c] \<Rightarrow> (case status_error e c of
                  Some res \<Rightarrow> body_text res \<noteq> []
                     \<and> (case json_result res of Inr j \<Rightarrow> \<not> renders e j | Inl m \<Rightarrow> False)
                | None \<Rightarrow> False)
      | _ \<Rightarrow> False)"

text \<open>
  The calls made ended in a 2xx response whose body parses to a value that FastAPI
  cannot serialise.
\<close>

definition unencoded_body :: "env \<Rightarrow> outbound_call list \<Rightarrow> bool" where
  "unencoded_body e calls =
     (case calls of
        [c] \<Rightarrow> (case send e c of
                  Inr res \<Rightarrow> is_success res
                     \<and> (case json_result res of Inr j \<Rightarrow> \<not> encodes e j | Inl m \<Rightarrow> False)
                | Inl x \<Rightarrow> False)
      | _ \<Rightarrow> False)"

text \<open>
  The same for \<open>get_streaming_token\<close>, which returns the parsed body only of a 200
  and only when it is a \<open>dict\<close>.
\<close>

definition unencoded_token :: "env \<Rightarrow> bool" where
  "unencoded_token e =
     (case send e (streaming_token_call e) of
        Inr res \<Rightarrow> status_code res = 200
           \<and> (case json_result res of
                Inr j \<Rightarrow> is_dict j \<and> \<not> encodes e j
              | Inl m \<Rightarrow> False)
      | Inl x \<Rightarrow> False)"

text \<open>A value that is text or an integer.\<close>

fun flat :: "json \<Rightarrow> bool" where
  "flat (JStr s) = True"
| "flat (JInt n) = True"
| "flat v = False"

subsection \<open>Simulated upstreams and requests\<close>

text \<open>An environment whose upstream answers every call with the same outcome.\<close>

definition simulated :: "exn + response \<Rightarrow> env" where
  "simulated out =
     \<lparr>HEYGEN_API_KEY = Some ''test-key'', send = (\<lambda>c. out),
      format_exc = (\<lambda>x. ''Traceback (most recent call last):''),
      dumps_depth = 900, encoder_depth = 900,
      render_error = (\<lambda>c. ''Out of range float values are not JSON compliant'')\<rparr>"

text \<open>The body text \<open>{"code": 42}\<close> and an upstream response that carries it.\<close>

definition code42_text :: string where
  "code42_text = ''{'' @ [CHR 0x22] @ ''code'' @ [CHR 0x22] @ '': 42}''"

definition code42_response :: "int \<Rightarrow> response" where
  "code42_response st =
     \<lparr>status_code = st, body_text = code42_text,
      json_result = Inr (JObj [(''code'', JInt 42)])\<rparr>"

text \<open>
  The body text \<open>{"x": 1e400}\<close> and an upstream response that carries it: the number
  is beyond the range of a double, and the parser returns \<open>inf\<close>.
\<close>

definition huge_text :: string where
  "huge_text = ''{'' @ [CHR 0x22] @ ''x'' @ [CHR 0x22] @ '': 1e400}''"

definition huge_response :: "int \<Rightarrow> response" where
  "huge_response st =
     \<lparr>status_code = st, body_text = huge_text,
      json_result = Inr (JObj [(''x'', JNonFinite PosInf)])\<rparr>"

text \<open>An upstream response whose body is plain text, which \<open>json()\<close> rejects.\<close>

definition plain_response :: "int \<Rightarrow> string \<Rightarrow> response" where
  "plain_response st s =
     \<lparr>status_code = st, body_text = s,
      json_result = Inl ''Expecting value: line 1 column 1 (char 0)''\<rparr>"

text \<open>An inbound chat request whose body parsed to the given JSON object.\<close>

definition chat_request :: "(string \<times> json) list \<Rightarrow> request" where
  "chat_request kvs = \<lparr>request_json = Inr (JObj kvs)\<rparr>"

text \<open>The request \<open>{"message": "hi"}\<close> and the call it leads to.\<close>

definition hi_request :: request where
  "hi_request = chat_request [(''message'', JStr ''hi'')]"

definition hi_call :: outbound_call where
  "hi_call = chat_call (JObj [(''message'', JStr ''hi'')])"

section \<open>Properties\<close>

subsection \<open>Responses that always render\<close>

text \<open>
  A \<open>dict\<close> of text and integers, as every handler builds for its own errors,
  renders whatever the recursion limit.
\<close>

lemma flat_values:
  "list_all flat vs \<Longrightarrow> list_all renderable vs \<and> foldr max (map depth vs) 0 = 0"
proof (induction vs)
  case Nil
  then show ?case by simp
next
  case (Cons v vs)
  then show ?case by (cases v) simp_all
qed

lemma JSONResponse_new_flat:
  "list_all flat (map snd kvs) \<Longrightarrow>
   JSONResponse_new e st (JObj kvs) = Inr \<lparr>resp_status = st, content = JObj kvs\<rparr>"
  using flat_values [of "map snd kvs"]
  by (simp add: JSONResponse_new_def renders_def)

lemma JSONResponse_new_renders:
  "renders e c \<Longrightarrow> JSONResponse_new e st c = Inr \<lparr>resp_status = st, content = c\<rparr>"
  by (simp add: JSONResponse_new_def)

lemma fastapi_return_encodes:
  "encodes e c \<Longrightarrow> fastapi_return e c = Inr \<lparr>resp_status = 200, content = c\<rparr>"
  by (simp add: fastapi_return_def encodes_def JSONResponse_new_def)

lemma fastapi_return_cases:
  "(encodes e c \<and> fastapi_return e c = Inr \<lparr>resp_status = 200, content = c\<rparr>)
   \<or> (\<not> encodes e c \<and> fastapi_return e c = Inl (Exception (render_error e c)))"
  by (simp add: fastapi_return_def encodes_def JSONResponse_new_def)

subsection \<open>Outcomes of the helpers\<close>

lemma heygen_get_raises:
  "send e (heygen_get_call e ep) = Inl x \<Longrightarrow>
   heygen_get e ep = (Inl x, [heygen_get_call e ep])"
  by (simp add: heygen_get_def)

lemma heygen_get_status_error:
  "send e (heygen_get_call e ep) = Inr res \<Longrightarrow> \<not> is_success res \<Longrightarrow>
   heygen_get e ep = (Inl (HTTPStatusError res), [heygen_get_call e ep])"
  by (simp add: heygen_get_def raise_for_status_def)

lemma heygen_get_parsed:
  "send e (heygen_get_call e ep) = Inr res \<Longrightarrow> is_success res \<Longrightarrow>
   json_result res = Inr j \<Longrightarrow>
   heygen_get e ep = (Inr j, [heygen_get_call e ep])"
  by (simp add: heygen_get_def raise_for_status_def response_json_def)

lemma heygen_get_calls: "snd (heygen_get e ep) = [heygen_get_call e ep]"
  by (simp add: heygen_get_def Let_def)

text \<open>\<open>heygen_get\<close> returns the parsed body of a 2xx response, or raises.\<close>

lemma heygen_get_cases:
  "(\<exists>j res. fst (heygen_get e ep) = Inr j \<and> send e (heygen_get_call e ep) = Inr res
        \<and> is_success res \<and> json_result res = Inr j)
   \<or> (\<exists>x. fst (heygen_get e ep) = Inl x)"
  by (auto simp: heygen_get_def Let_def raise_for_status_def response_json_def
        split: sum.splits)

lemma py_get_dict:
  "py_get (JObj kvs) k = Inr (case map_of kvs k of None \<Rightarrow> JNull | Some v \<Rightarrow> v)"
  by (simp add: py_get_def)

subsection \<open>The two halves of \<open>chat\<close>\<close>

text \<open>The calls of \<open>chat\<close> are those of its \<open>try\<close> body.\<close>

lemma chat_calls: "snd (chat e req) = snd (chat_try e req)"
  by (cases "chat_try e req")
     (auto simp: chat_def split: sum.splits exn.splits reply.splits)

text \<open>The response of \<open>chat\<close>, from the result of its \<open>try\<close> body.\<close>

lemma chat_result:
  "fst (chat e req) =
     (case fst (chat_try e req) of
        Inr (Built r) \<Rightarrow> Inr r
      | Inr (Returned j) \<Rightarrow> fastapi_return e j
      | Inl (TimeoutException m) \<Rightarrow>
          Inr \<lparr>resp_status = 504,
               content = JObj [(''error'',
                 JStr (''Request timeout: '' @ m
                       @ ''. RAG API is taking too long to respond.''))]\<rparr>
      | Inl (HTTPStatusError r) \<Rightarrow>
          (if body_text r \<noteq> [] then
             (case response_json r of
                Inl x \<Rightarrow> Inl x
              | Inr j \<Rightarrow> JSONResponse_new e (status_code r) j)
           else
             Inr \<lparr>resp_status = status_code r,
                  content = JObj [(''error'', JStr (body_text r))]\<rparr>)
      | Inl (Exception m) \<Rightarrow>
          Inr \<lparr>resp_status = 500, content = JObj [(''error'', JStr m)]\<rparr>)"
  by (cases "chat_try e req")
     (auto simp: chat_def JSONResponse_new_flat split: sum.splits exn.splits reply.splits)

text \<open>A request that fails validation: 400, and no call.\<close>

lemma chat_falsy_message:
  assumes "request_json req = Inr (JObj kvs)"
    and "\<not> truthy (case map_of kvs ''message'' of None \<Rightarrow> JNull | Some v \<Rightarrow> v)"
  shows "chat e req =
     (Inr \<lparr>resp_status = 400, content = JObj [(''error'', JStr ''Message is required'')]\<rparr>, [])"
  using assms
  by (simp add: chat_def chat_try_def py_get_dict built_def JSONResponse_new_flat)

text \<open>A request that passes validation: the one call made, and the result of the \<open>try\<close>.\<close>

lemma chat_try_valid:
  assumes "request_json req = Inr (JObj kvs)"
    and "map_of kvs ''message'' = Some m" and "truthy m"
  shows "chat_try e req =
     (let call = chat_call (chat_payload m
                   (case map_of kvs ''conversation_id'' of None \<Rightarrow> JNull | Some v \<Rightarrow> v)) in
      (case send e call of
         Inl x \<Rightarrow> Inl x
       | Inr res \<Rightarrow>
           (case raise_for_status res of
              Inl x \<Rightarrow> Inl x
            | Inr _ \<Rightarrow>
                (case response_json res of
                   Inl x \<Rightarrow> Inl x
                 | Inr j \<Rightarrow> Inr (Returned j))),
       [call]))"
  using assms by (simp add: chat_try_def py_get_dict)

text \<open>Whenever \<open>chat\<close> made a call, the result of its \<open>try\<close> is decided by that call alone.\<close>

lemma chat_of_call:
  assumes "snd (chat e req) = [c]"
  shows "fst (chat_try e req) =
     (case send e c of
        Inl x \<Rightarrow> Inl x
      | Inr res \<Rightarrow>
          (case raise_for_status res of
             Inl x \<Rightarrow> Inl x
           | Inr _ \<Rightarrow>
               (case response_json res of
                  Inl x \<Rightarrow> Inl x
                | Inr j \<Rightarrow> Inr (Returned j))))"
  using assms unfolding chat_calls
  by (auto simp: chat_try_def Let_def split: sum.splits if_splits)

lemma chat_timeout_s:
  "snd (chat e req) = [c] \<Longrightarrow> timeout_s c = 120"
  unfolding chat_calls
  by (auto simp: chat_try_def Let_def chat_call_def split: sum.splits if_splits)

lemma chat_no_call_or_one:
  "snd (chat e req) = [] \<or> (\<exists>c. snd (chat e req) = [c])"
  unfolding chat_calls
  by (auto simp: chat_try_def Let_def split: sum.splits if_splits)

text \<open>Without a call, the \<open>try\<close> body of \<open>chat\<close> ends in the 400 or in an \<open>Exception\<close>.\<close>

lemma chat_try_no_call:
  assumes "snd (chat e req) = []"
  shows "fst (chat_try e req) =
           Inr (Built \<lparr>resp_status = 400,
                       content = JObj [(''error'', JStr ''Message is required'')]\<rparr>)
         \<or> (\<exists>m. fst (chat_try e req) = Inl (Exception m))"
  using assms unfolding chat_calls
  by (auto simp: chat_try_def Let_def py_get_def attribute_error_def built_def
           JSONResponse_new_flat
           split: sum.splits if_splits json.splits)

subsection \<open>The simulated upstream\<close>

lemma send_simulated: "send (simulated out) c = out"
  by (simp add: simulated_def)

lemma hi_request_calls: "snd (chat (simulated out) hi_request) = [hi_call]"
  by (simp add: chat_calls chat_try_def hi_request_def chat_request_def hi_call_def
        py_get_def chat_payload_def Let_def)

subsection \<open>Upstream errors\<close>

text \<open>
  C1 (as amended). When the upstream completes with a status outside 2xx,
  ListAllAvatars, ListInteractiveAvatars and ListVoices answer with that status and
  the wrapper \<open>{"error": <raw text>}\<close>, never parsing the upstream body, and
  IssueStreamingToken answers with that status and the wrapper
  \<open>{"error": <raw text>, "status": <status>, "details": "Check backend logs"}\<close>.
  Chat answers with that status and \<open>{"error": ""}\<close> when the upstream body is
  empty, and with that status and the parsed upstream JSON verbatim when the body is
  not empty, parses, and the parsed value renders.
\<close>

theorem upstream_error_status_and_body:
  assumes "\<not> is_success res"
  shows
  "(send e (streaming_token_call e) = Inr res \<longrightarrow>
      fst (get_streaming_token e) =
        Inr \<lparr>resp_status = status_code res,
             content = JObj [(''error'', JStr (body_text res)),
                             (''status'', JInt (status_code res)),
                             (''details'', JStr ''Check backend logs'')]\<rparr>)
   \<and> (send e (heygen_get_call e ''v2/avatars'') = Inr res \<longrightarrow>
      fst (get_avatars e) =
        Inr \<lparr>resp_status = status_code res,
             content = JObj [(''error'', JStr (body_text res))]\<rparr>)
   \<and> (send e (heygen_get_call e ''v1/streaming/avatar.list'') = Inr res \<longrightarrow>
      fst (get_interactive_avatars e) =
        Inr \<lparr>resp_status = status_code res,
             content = JObj [(''error'', JStr (body_text res))]\<rparr>)
   \<and> (send e (heygen_get_call e ''v2/voices'') = Inr res \<longrightarrow>
      fst (get_voices e) =
        Inr \<lparr>resp_status = status_code res,
             content = JObj [(''error'', JStr (body_text res))]\<rparr>)
   \<and> (snd (chat e req) = [c] \<and> send e c = Inr res \<longrightarrow>
        (body_text res = [] \<longrightarrow>
           fst (chat e req) =
             Inr \<lparr>resp_status = status_code res, content = JObj [(''error'', JStr [])]\<rparr>)
      \<and> (body_text res \<noteq> [] \<and> json_result res = Inr j \<and> renders e j \<longrightarrow>
           fst (chat e req) = Inr \<lparr>resp_status = status_code res, content = j\<rparr>))"
proof -
  from assms have ne: "status_code res \<noteq> 200" by (auto simp: is_success_def)
  show ?thesis
    using assms ne
    by (simp add: get_streaming_token_def streaming_token_try_def get_avatars_def
          get_interactive_avatars_def get_voices_def heygen_get_status_error
          chat_result chat_of_call raise_for_status_def response_json_def
          built_def JSONResponse_new_flat JSONResponse_new_renders)
qed

text \<open>
  The theorem at an upstream 404 with body \<open>{"code": 42}\<close>, and for Chat also at an
  upstream 503 with an empty body.
\<close>

theorem upstream_error_status_and_body_witness:
  "\<not> is_success (code42_response 404)
   \<and> fst (get_streaming_token (simulated (Inr (code42_response 404)))) =
        Inr \<lparr>resp_status = 404,
             content = JObj [(''error'', JStr code42_text), (''status'', JInt 404),
                             (''details'', JStr ''Check backend logs'')]\<rparr>
   \<and> fst (get_avatars (simulated (Inr (code42_response 404)))) =
        Inr \<lparr>resp_status = 404, content = JObj [(''error'', JStr code42_text)]\<rparr>
   \<and> fst (get_interactive_avatars (simulated (Inr (code42_response 404)))) =
        Inr \<lparr>resp_status = 404, content = JObj [(''error'', JStr code42_text)]\<rparr>
   \<and> fst (get_voices (simulated (Inr (code42_response 404)))) =
        Inr \<lparr>resp_status = 404, content = JObj [(''error'', JStr code42_text)]\<rparr>
   \<and> snd (chat (simulated (Inr (code42_response 404))) hi_request) = [hi_call]
   \<and> renders (simulated (Inr (code42_response 404))) (JObj [(''code'', JInt 42)])
   \<and> fst (chat (simulated (Inr (code42_response 404))) hi_request) =
        Inr \<lparr>resp_status = 404, content = JObj [(''code'', JInt 42)]\<rparr>
   \<and> \<not> is_success (plain_response 503 [])
   \<and> snd (chat (simulated (Inr (plain_response 503 []))) hi_request) = [hi_call]
   \<and> fst (chat (simulated (Inr (plain_response 503 []))) hi_request) =
        Inr \<lparr>resp_status = 503, content = JObj [(''error'', JStr [])]\<rparr>"
proof -
  have n1: "\<not> is_success (code42_response 404)"
    by (simp add: is_success_def code42_response_def)
  have n2: "\<not> is_success (plain_response 503 [])"
    by (simp add: is_success_def plain_response_def)
  have b1: "code42_text \<noteq> []
            \<and> json_result (code42_response 404) = Inr (JObj [(''code'', JInt 42)])
            \<and> status_code (code42_response 404) = 404
            \<and> body_text (code42_response 404) = code42_text"
    by (simp add: code42_response_def code42_text_def)
  have b2: "body_text (plain_response 503 []) = [] \<and> status_code (plain_response 503 []) = 503"
    by (simp add: plain_response_def)
  have r: "renders (simulated out) (JObj [(''code'', JInt 42)])" for out
    by (simp add: renders_def)
  show ?thesis
    using upstream_error_status_and_body [OF n1, of "simulated (Inr (code42_response 404))"
            hi_request hi_call "JObj [(''code'', JInt 42)]"]
          upstream_error_status_and_body [OF n2, of "simulated (Inr (plain_response 503 []))"
            hi_request hi_call]
    by (simp add: hi_request_calls send_simulated n1 n2 b1 b2 r)
qed

text \<open>
  The claim as stated fails for ListAllAvatars at an upstream 404 whose body is the
  JSON \<open>{"code": 42}\<close>: the answer is the wrapper around the raw text, not the parsed
  JSON.
\<close>

theorem avatars_wrap_json_error_body:
  "json_result (code42_response 404) = Inr (JObj [(''code'', JInt 42)])
   \<and> fst (get_avatars (simulated (Inr (code42_response 404)))) =
        Inr \<lparr>resp_status = 404, content = JObj [(''error'', JStr code42_text)]\<rparr>
   \<and> fst (get_avatars (simulated (Inr (code42_response 404)))) \<noteq>
        Inr \<lparr>resp_status = 404, content = JObj [(''code'', JInt 42)]\<rparr>"
  by (simp add: get_avatars_def heygen_get_def simulated_def code42_response_def
        raise_for_status_def is_success_def JSONResponse_new_flat)

subsection \<open>Every outcome becomes a response\<close>

lemma streaming_token_total:
  assumes "\<not> unencoded_token e"
  shows "\<exists>r. fst (get_streaming_token e) = Inr r
        \<and> (has_error_field (content r) \<or> forwarded e (streaming_token_call e) r)"
proof (cases "send e (streaming_token_call e)")
  case (Inl x)
  then show ?thesis
    by (cases x)
       (simp_all add: get_streaming_token_def streaming_token_try_def JSONResponse_new_flat
          has_error_field_def)
next
  case (Inr res)
  show ?thesis
  proof (cases "status_code res = 200")
    case False
    with Inr show ?thesis
      by (simp add: get_streaming_token_def streaming_token_try_def built_def
            JSONResponse_new_flat has_error_field_def)
  next
    case True
    show ?thesis
    proof (cases "json_result res")
      case (Inl m)
      with Inr True show ?thesis
        by (simp add: get_streaming_token_def streaming_token_try_def response_json_def
              JSONResponse_new_flat has_error_field_def)
    next
      case j: (Inr j)
      show ?thesis
      proof (cases "is_dict j")
        case False
        with Inr True j show ?thesis
          by (cases j)
             (simp_all add: get_streaming_token_def streaming_token_try_def response_json_def
                py_keys_def attribute_error_def JSONResponse_new_flat has_error_field_def)
      next
        case d: True
        with assms Inr True j have "encodes e j"
          by (simp add: unencoded_token_def)
        with Inr True j d show ?thesis
          by (cases j)
             (simp_all add: get_streaming_token_def streaming_token_try_def response_json_def
                py_keys_def fastapi_return_encodes forwarded_def is_success_def)
      qed
    qed
  qed
qed

text \<open>The three routes built on \<open>heygen_get\<close> differ only in their 500.\<close>

lemma list_route_total:
  assumes "\<not> unencoded_body e [heygen_get_call e ep]"
    and "\<And>m. \<exists>kvs. on_exception m = JSONResponse_new e 500 (JObj ((''error'', JStr m) # kvs))
                \<and> list_all flat (map snd kvs)"
  shows "\<exists>r. fst (case heygen_get e ep of
                 (Inr result, calls) \<Rightarrow> (fastapi_return e result, calls)
               | (Inl (TimeoutException m), calls) \<Rightarrow>
                   (JSONResponse_new e 504
                      (JObj [(''error'', JStr (''Request timeout: '' @ m))]), calls)
               | (Inl (HTTPStatusError r), calls) \<Rightarrow>
                   (JSONResponse_new e (status_code r)
                      (JObj [(''error'', JStr (body_text r))]), calls)
               | (Inl (Exception m), calls) \<Rightarrow> (on_exception m, calls)) = Inr r
        \<and> (has_error_field (content r) \<or> forwarded e (heygen_get_call e ep) r)"
proof -
  from heygen_get_cases [of e ep]
  consider j res where "fst (heygen_get e ep) = Inr j"
      "send e (heygen_get_call e ep) = Inr res" "is_success res" "json_result res = Inr j"
    | x where "fst (heygen_get e ep) = Inl x"
    by blast
  then show ?thesis
  proof cases
    case 1
    with assms(1) have "encodes e j" by (simp add: unencoded_body_def)
    with 1 show ?thesis
      by (cases "heygen_get e ep") (simp add: fastapi_return_encodes forwarded_def)
  next
    case 2
    show ?thesis
    proof (cases x)
      case (Exception m)
      from assms(2) [of m] obtain kvs where
        "on_exception m = JSONResponse_new e 500 (JObj ((''error'', JStr m) # kvs))"
        "list_all flat (map snd kvs)" by blast
      with 2 Exception show ?thesis
        by (cases "heygen_get e ep") (simp add: JSONResponse_new_flat has_error_field_def)
    qed (use 2 in \<open>cases "heygen_get e ep"; simp add: JSONResponse_new_flat has_error_field_def\<close>)+
  qed
qed

lemma get_avatars_total:
  assumes "\<not> unencoded_body e [heygen_get_call e ''v2/avatars'']"
  shows "\<exists>r. fst (get_avatars e) = Inr r
        \<and> (has_error_field (content r) \<or> forwarded e (heygen_get_call e ''v2/avatars'') r)"
  unfolding get_avatars_def
  by (rule list_route_total [OF assms]) (rule exI, rule conjI, rule refl, simp)

lemma get_interactive_avatars_total:
  assumes "\<not> unencoded_body e [heygen_get_call e ''v1/streaming/avatar.list'']"
  shows "\<exists>r. fst (get_interactive_avatars e) = Inr r
        \<and> (has_error_field (content r)
           \<or> forwarded e (heygen_get_call e ''v1/streaming/avatar.list'') r)"
  unfolding get_interactive_avatars_def
  by (rule list_route_total [OF assms]) (rule exI, rule conjI, rule refl, simp)

lemma get_voices_total:
  assumes "\<not> unencoded_body e [heygen_get_call e ''v2/voices'']"
  shows "\<exists>r. fst (get_voices e) = Inr r
        \<and> (has_error_field (content r) \<or> forwarded e (heygen_get_call e ''v2/voices'') r)"
  unfolding get_voices_def
  by (rule list_route_total [OF assms]) (rule exI, rule conjI, rule refl, simp)

lemma chat_total_no_call:
  assumes "snd (chat e req) = []"
  shows "\<exists>r. fst (chat e req) = Inr r \<and> has_error_field (content r)"
  using chat_try_no_call [OF assms]
  by (auto simp: chat_result has_error_field_def)

lemma chat_total_call:
  assumes "snd (chat e req) = [c]"
    and "\<not> unencoded_body e [c]"
    and "\<not> unparsed_error_body e [c]" and "\<not> unrendered_error_body e [c]"
  shows "\<exists>r. fst (chat e req) = Inr r
           \<and> (has_error_field (content r) \<or> forwarded e c r \<or> mirrored e c r)"
  using assms(2-4)
  by (auto simp: chat_result chat_of_call [OF assms(1)] unparsed_error_body_def
        unrendered_error_body_def unencoded_body_def
        status_error_def mirrored_def forwarded_def has_error_field_def
        raise_for_status_def response_json_def fastapi_return_encodes
        JSONResponse_new_renders
        split: sum.splits exn.splits if_splits)

text \<open>
  C2 (as amended). Every operation returns an HTTP response on every outcome of its
  outbound call other than these: a 2xx response whose body parses to a value that
  FastAPI cannot serialise (for IssueStreamingToken: a 200 whose body is such a
  \<open>dict\<close>), and, for Chat, an upstream error whose body is non-empty and either does
  not parse as JSON or parses to a value that does not render. Whenever the response
  is not the 200 passthrough of a successful call, its body is a JSON object with an
  \<open>error\<close> field, except that Chat answers an upstream error whose body parses and
  renders with that parsed body verbatim, whatever its fields.
\<close>

theorem failures_become_responses:
  "(\<not> unencoded_token e \<longrightarrow>
      (\<exists>r. fst (get_streaming_token e) = Inr r
        \<and> (has_error_field (content r) \<or> forwarded e (streaming_token_call e) r)))
   \<and> (\<not> unencoded_body e [heygen_get_call e ''v2/avatars''] \<longrightarrow>
      (\<exists>r. fst (get_avatars e) = Inr r
        \<and> (has_error_field (content r) \<or> forwarded e (heygen_get_call e ''v2/avatars'') r)))
   \<and> (\<not> unencoded_body e [heygen_get_call e ''v1/streaming/avatar.list''] \<longrightarrow>
      (\<exists>r. fst (get_interactive_avatars e) = Inr r
        \<and> (has_error_field (content r)
           \<or> forwarded e (heygen_get_call e ''v1/streaming/avatar.list'') r)))
   \<and> (\<not> unencoded_body e [heygen_get_call e ''v2/voices''] \<longrightarrow>
      (\<exists>r. fst (get_voices e) = Inr r
        \<and> (has_error_field (content r) \<or> forwarded e (heygen_get_call e ''v2/voices'') r)))
   \<and> (\<not> unencoded_body e (snd (chat e req))
        \<and> \<not> unparsed_error_body e (snd (chat e req))
        \<and> \<not> unrendered_error_body e (snd (chat e req)) \<longrightarrow>
        (\<exists>r. fst (chat e req) = Inr r
           \<and> (has_error_field (content r)
              \<or> (\<exists>c. snd (chat e req) = [c] \<and> (forwarded e c r \<or> mirrored e c r)))))"
proof -
  have "\<exists>r. fst (chat e req) = Inr r
           \<and> (has_error_field (content r)
              \<or> (\<exists>c. snd (chat e req) = [c] \<and> (forwarded e c r \<or> mirrored e c r)))"
    if h: "\<not> unencoded_body e (snd (chat e req))"
          "\<not> unparsed_error_body e (snd (chat e req))"
          "\<not> unrendered_error_body e (snd (chat e req))"
  proof -
    from chat_no_call_or_one [of e req]
    consider "snd (chat e req) = []" | c where "snd (chat e req) = [c]"
      by auto
    then show ?thesis
    proof cases
      case 1
      from chat_total_no_call [OF this] show ?thesis by blast
    next
      case 2
      with h have "\<not> unencoded_body e [c]" "\<not> unparsed_error_body e [c]"
        "\<not> unrendered_error_body e [c]" by simp_all
      from chat_total_call [OF 2 this] 2 show ?thesis by auto
    qed
  qed
  with streaming_token_total get_avatars_total get_interactive_avatars_total get_voices_total
  show ?thesis by blast
qed

text \<open>The theorem at an upstream 404 with the JSON body \<open>{"code": 42}\<close>.\<close>

theorem failures_become_responses_witness:
  "\<not> unencoded_token (simulated (Inr (code42_response 404)))
   \<and> (\<exists>r. fst (get_streaming_token (simulated (Inr (code42_response 404)))) = Inr r
        \<and> (has_error_field (content r)
           \<or> forwarded (simulated (Inr (code42_response 404)))
                (streaming_token_call (simulated (Inr (code42_response 404)))) r))
   \<and> \<not> unencoded_body (simulated (Inr (code42_response 404)))
        [heygen_get_call (simulated (Inr (code42_response 404))) ''v2/avatars'']
   \<and> (\<exists>r. fst (get_avatars (simulated (Inr (code42_response 404)))) = Inr r
        \<and> (has_error_field (content r)
           \<or> forwarded (simulated (Inr (code42_response 404)))
                (heygen_get_call (simulated (Inr (code42_response 404))) ''v2/avatars'') r))
   \<and> \<not> unencoded_body (simulated (Inr (code42_response 404)))
        [heygen_get_call (simulated (Inr (code42_response 404))) ''v1/streaming/avatar.list'']
   \<and> (\<exists>r. fst (get_interactive_avatars (simulated (Inr (code42_response 404)))) = Inr r
        \<and> (has_error_field (content r)
           \<or> forwarded (simulated (Inr (code42_response 404)))
                (heygen_get_call (simulated (Inr (code42_response 404)))
                   ''v1/streaming/avatar.list'') r))
   \<and> \<not> unencoded_body (simulated (Inr (code42_response 404)))
        [heygen_get_call (simulated (Inr (code42_response 404))) ''v2/voices'']
   \<and> (\<exists>r. fst (get_voices (simulated (Inr (code42_response 404)))) = Inr r
        \<and> (has_error_field (content r)
           \<or> forwarded (simulated (Inr (code42_response 404)))
                (heygen_get_call (simulated (Inr (code42_response 404))) ''v2/voices'') r))
   \<and> \<not> unencoded_body (simulated (Inr (code42_response 404)))
        (snd (chat (simulated (Inr (code42_response 404))) hi_request))
   \<and> \<not> unparsed_error_body (simulated (Inr (code42_response 404)))
        (snd (chat (simulated (Inr (code42_response 404))) hi_request))
   \<and> \<not> unrendered_error_body (simulated (Inr (code42_response 404)))
        (snd (chat (simulated (Inr (code42_response 404))) hi_request))
   \<and> (\<exists>r. fst (chat (simulated (Inr (code42_response 404))) hi_request) = Inr r
        \<and> (has_error_field (content r)
           \<or> (\<exists>c. snd (chat (simulated (Inr (code42_response 404))) hi_request) = [c]
                \<and> (forwarded (simulated (Inr (code42_response 404))) c r
                   \<or> mirrored (simulated (Inr (code42_response 404))) c r))))"
proof -
  have n: "\<not> is_success (code42_response 404)"
    by (simp add: is_success_def code42_response_def)
  have t: "\<not> unencoded_token (simulated (Inr (code42_response 404)))"
    by (simp add: unencoded_token_def send_simulated code42_response_def)
  have b: "\<not> unencoded_body (simulated (Inr (code42_response 404))) [c]" for c
    by (simp add: unencoded_body_def send_simulated n)
  have p: "\<not> unparsed_error_body (simulated (Inr (code42_response 404))) [c]" for c
    by (simp add: unparsed_error_body_def status_error_def send_simulated code42_response_def)
  have r: "\<not> unrendered_error_body (simulated (Inr (code42_response 404))) [c]" for c
    by (simp add: unrendered_error_body_def status_error_def send_simulated
          code42_response_def renders_def)
  from t b p r failures_become_responses [of "simulated (Inr (code42_response 404))" hi_request]
  show ?thesis by (simp add: hi_request_calls)
qed

text \<open>
  The claim as stated fails for Chat at an upstream 404 whose body is the JSON
  \<open>{"code": 42}\<close>: the caller receives that body, which has no \<open>error\<close> field.
\<close>

theorem chat_error_body_without_error_field:
  "fst (chat (simulated (Inr (code42_response 404))) hi_request) =
     Inr \<lparr>resp_status = 404, content = JObj [(''code'', JInt 42)]\<rparr>
   \<and> \<not> has_error_field (JObj [(''code'', JInt 42)])"
  by (simp add: chat_result chat_of_call [OF hi_request_calls] send_simulated
        raise_for_status_def is_success_def response_json_def code42_response_def
        code42_text_def has_error_field_def JSONResponse_new_def renders_def)

text \<open>
  The outcomes the amended claim leaves out. At an upstream 502 whose body is the
  plain text \<open>Bad Gateway\<close>, the \<open>except\<close> clause of \<open>chat\<close> raises while parsing
  it, and the exception leaves the handler.
\<close>

lemma chat_unparsed_error_body_escapes:
  "unparsed_error_body (simulated (Inr (plain_response 502 ''Bad Gateway'')))
     (snd (chat (simulated (Inr (plain_response 502 ''Bad Gateway''))) hi_request))
   \<and> fst (chat (simulated (Inr (plain_response 502 ''Bad Gateway''))) hi_request) =
       Inl (Exception ''Expecting value: line 1 column 1 (char 0)'')"
  by (simp add: chat_result chat_of_call [OF hi_request_calls] hi_request_calls send_simulated
        unparsed_error_body_def status_error_def
        raise_for_status_def is_success_def response_json_def plain_response_def)

text \<open>
  At an upstream 502 whose body is \<open>{"x": 1e400}\<close>, the body parses to a \<open>dict\<close>
  that holds \<open>inf\<close>; the \<open>except\<close> clause of \<open>chat\<close> raises while building the
  response from it, and the exception leaves the handler.
\<close>

lemma chat_unrendered_error_body_escapes:
  "unrendered_error_body (simulated (Inr (huge_response 502)))
     (snd (chat (simulated (Inr (huge_response 502))) hi_request))
   \<and> fst (chat (simulated (Inr (huge_response 502))) hi_request) =
       Inl (Exception ''Out of range float values are not JSON compliant'')"
proof -
  have msg: "render_error (simulated out) c =
               ''Out of range float values are not JSON compliant''" for out c
    by (simp add: simulated_def)
  show ?thesis
    by (simp add: chat_result chat_of_call [OF hi_request_calls] hi_request_calls
          send_simulated unrendered_error_body_def status_error_def JSONResponse_new_def
          renders_def raise_for_status_def is_success_def response_json_def
          huge_response_def huge_text_def msg)
qed

text \<open>
  At an upstream 200 with the same body, every operation returns the parsed value, and
  FastAPI raises while serialising it: no operation answers with a response of its
  own.
\<close>

lemma unencoded_body_escapes:
  "isl (fst (get_streaming_token (simulated (Inr (huge_response 200)))))
   \<and> isl (fst (get_avatars (simulated (Inr (huge_response 200)))))
   \<and> isl (fst (get_interactive_avatars (simulated (Inr (huge_response 200)))))
   \<and> isl (fst (get_voices (simulated (Inr (huge_response 200)))))
   \<and> isl (fst (chat (simulated (Inr (huge_response 200))) hi_request))"
proof -
  have ok: "is_success (huge_response 200)"
    by (simp add: is_success_def huge_response_def)
  have parsed: "json_result (huge_response 200) = Inr (JObj [(''x'', JNonFinite PosInf)])"
    by (simp add: huge_response_def)
  have st: "status_code (huge_response 200) = 200"
    by (simp add: huge_response_def)
  have raises: "isl (fastapi_return e (JObj [(''x'', JNonFinite PosInf)]))" for e
    by (simp add: fastapi_return_def JSONResponse_new_def renders_def)
  show ?thesis
    using raises
    by (simp add: get_streaming_token_def streaming_token_try_def get_avatars_def
          get_interactive_avatars_def get_voices_def
          heygen_get_parsed [OF send_simulated ok parsed]
          chat_result chat_of_call [OF hi_request_calls] send_simulated
          raise_for_status_def ok response_json_def parsed st py_keys_def)
qed

subsection \<open>Validation of the chat request\<close>

text \<open>
  C3. For every inbound Chat request (a JSON object) whose \<open>message\<close> field is absent
  or the empty string, Chat returns status 400 with body exactly
  \<open>{"error": "Message is required"}\<close> and makes no outbound call.
\<close>

theorem chat_message_required:
  assumes "request_json req = Inr (JObj kvs)"
    and "map_of kvs ''message'' = None \<or> map_of kvs ''message'' = Some (JStr [])"
  shows "chat e req =
     (Inr \<lparr>resp_status = 400, content = JObj [(''error'', JStr ''Message is required'')]\<rparr>,
      [])"
  using assms by (auto intro!: chat_falsy_message)

text \<open>The theorem at the bodies \<open>{"message": ""}\<close> and \<open>{"conversation_id": "abc"}\<close>.\<close>

theorem chat_message_required_witness:
  "chat (simulated (Inr (code42_response 200))) (chat_request [(''message'', JStr '''')]) =
     (Inr \<lparr>resp_status = 400, content = JObj [(''error'', JStr ''Message is required'')]\<rparr>,
      [])
   \<and> chat (simulated (Inr (code42_response 200)))
        (chat_request [(''conversation_id'', JStr ''abc'')]) =
     (Inr \<lparr>resp_status = 400, content = JObj [(''error'', JStr ''Message is required'')]\<rparr>,
      [])"
  using chat_message_required [of "chat_request [(''message'', JStr '''')]"
          "[(''message'', JStr '''')]" "simulated (Inr (code42_response 200))"]
        chat_message_required [of "chat_request [(''conversation_id'', JStr ''abc'')]"
          "[(''conversation_id'', JStr ''abc'')]" "simulated (Inr (code42_response 200))"]
  by (simp add: chat_request_def)

subsection \<open>Timeouts\<close>

lemma get_avatars_calls: "snd (get_avatars e) = [heygen_get_call e ''v2/avatars'']"
  using heygen_get_calls [of e "''v2/avatars''"]
  by (cases "heygen_get e ''v2/avatars''")
     (auto simp: get_avatars_def split: sum.splits exn.splits)

lemma get_interactive_avatars_calls:
  "snd (get_interactive_avatars e) = [heygen_get_call e ''v1/streaming/avatar.list'']"
  using heygen_get_calls [of e "''v1/streaming/avatar.list''"]
  by (cases "heygen_get e ''v1/streaming/avatar.list''")
     (auto simp: get_interactive_avatars_def split: sum.splits exn.splits)

lemma get_voices_calls: "snd (get_voices e) = [heygen_get_call e ''v2/voices'']"
  using heygen_get_calls [of e "''v2/voices''"]
  by (cases "heygen_get e ''v2/voices''")
     (auto simp: get_voices_def split: sum.splits exn.splits)

text \<open>
  C4. Every outbound call is made with a fixed timeout, 60 seconds for the four
  avatar-provider operations and 120 seconds for Chat, and when the call ends in a
  timeout the operation returns status 504 with a JSON body whose \<open>error\<close> field
  reads \<open>Request timeout: \<close> followed by the description of the timeout.
\<close>

theorem timeout_gives_504:
  "map timeout_s (snd (get_streaming_token e)) = [60]
   \<and> map timeout_s (snd (get_avatars e)) = [60]
   \<and> map timeout_s (snd (get_interactive_avatars e)) = [60]
   \<and> map timeout_s (snd (get_voices e)) = [60]
   \<and> (snd (chat e req) = [c] \<longrightarrow> timeout_s c = 120)
   \<and> (send e (streaming_token_call e) = Inl (TimeoutException m) \<longrightarrow>
        fst (get_streaming_token e) =
          Inr \<lparr>resp_status = 504,
               content = JObj [(''error'', JStr (''Request timeout: '' @ m))]\<rparr>)
   \<and> (send e (heygen_get_call e ''v2/avatars'') = Inl (TimeoutException m) \<longrightarrow>
        fst (get_avatars e) =
          Inr \<lparr>resp_status = 504,
               content = JObj [(''error'', JStr (''Request timeout: '' @ m))]\<rparr>)
   \<and> (send e (heygen_get_call e ''v1/streaming/avatar.list'') = Inl (TimeoutException m) \<longrightarrow>
        fst (get_interactive_avatars e) =
          Inr \<lparr>resp_status = 504,
               content = JObj [(''error'', JStr (''Request timeout: '' @ m))]\<rparr>)
   \<and> (send e (heygen_get_call e ''v2/voices'') = Inl (TimeoutException m) \<longrightarrow>
        fst (get_voices e) =
          Inr \<lparr>resp_status = 504,
               content = JObj [(''error'', JStr (''Request timeout: '' @ m))]\<rparr>)
   \<and> (snd (chat e req) = [c] \<and> send e c = Inl (TimeoutException m) \<longrightarrow>
        fst (chat e req) =
          Inr \<lparr>resp_status = 504,
               content = JObj [(''error'',
                 JStr (''Request timeout: '' @ m
                       @ ''. RAG API is taking too long to respond.''))]\<rparr>)"
proof -
  have configured:
    "map timeout_s (snd (get_streaming_token e)) = [60]
     \<and> map timeout_s (snd (get_avatars e)) = [60]
     \<and> map timeout_s (snd (get_interactive_avatars e)) = [60]
     \<and> map timeout_s (snd (get_voices e)) = [60]"
    by (simp add: get_streaming_token_def streaming_token_call_def get_avatars_calls
          get_interactive_avatars_calls get_voices_calls heygen_get_call_def)
  have chat_configured: "snd (chat e req) = [c] \<longrightarrow> timeout_s c = 120"
    by (simp add: chat_timeout_s)
  have avatar_provider:
    "(send e (streaming_token_call e) = Inl (TimeoutException m) \<longrightarrow>
        fst (get_streaming_token e) =
          Inr \<lparr>resp_status = 504,
               content = JObj [(''error'', JStr (''Request timeout: '' @ m))]\<rparr>)
     \<and> (send e (heygen_get_call e ''v2/avatars'') = Inl (TimeoutException m) \<longrightarrow>
        fst (get_avatars e) =
          Inr \<lparr>resp_status = 504,
               content = JObj [(''error'', JStr (''Request timeout: '' @ m))]\<rparr>)
     \<and> (send e (heygen_get_call e ''v1/streaming/avatar.list'') = Inl (TimeoutException m) \<longrightarrow>
        fst (get_interactive_avatars e) =
          Inr \<lparr>resp_status = 504,
               content = JObj [(''error'', JStr (''Request timeout: '' @ m))]\<rparr>)
     \<and> (send e (heygen_get_call e ''v2/voices'') = Inl (TimeoutException m) \<longrightarrow>
        fst (get_voices e) =
          Inr \<lparr>resp_status = 504,
               content = JObj [(''error'', JStr (''Request timeout: '' @ m))]\<rparr>)"
    by (simp add: get_streaming_token_def streaming_token_try_def get_avatars_def
          get_interactive_avatars_def get_voices_def heygen_get_raises JSONResponse_new_flat)
  have chat_provider:
    "snd (chat e req) = [c] \<and> send e c = Inl (TimeoutException m) \<longrightarrow>
        fst (chat e req) =
          Inr \<lparr>resp_status = 504,
               content = JObj [(''error'',
                 JStr (''Request timeout: '' @ m
                       @ ''. RAG API is taking too long to respond.''))]\<rparr>"
    by (simp add: chat_result chat_of_call)
  from configured chat_configured avatar_provider chat_provider show ?thesis
    by blast
qed

text \<open>The theorem at an upstream that times out on every call.\<close>

theorem timeout_gives_504_witness:
  "fst (get_streaming_token (simulated (Inl (TimeoutException ''timed out'')))) =
     Inr \<lparr>resp_status = 504,
          content = JObj [(''error'', JStr ''Request timeout: timed out'')]\<rparr>
   \<and> fst (get_avatars (simulated (Inl (TimeoutException ''timed out'')))) =
     Inr \<lparr>resp_status = 504,
          content = JObj [(''error'', JStr ''Request timeout: timed out'')]\<rparr>
   \<and> fst (get_interactive_avatars (simulated (Inl (TimeoutException ''timed out'')))) =
     Inr \<lparr>resp_status = 504,
          content = JObj [(''error'', JStr ''Request timeout: timed out'')]\<rparr>
   \<and> fst (get_voices (simulated (Inl (TimeoutException ''timed out'')))) =
     Inr \<lparr>resp_status = 504,
          content = JObj [(''error'', JStr ''Request timeout: timed out'')]\<rparr>
   \<and> snd (chat (simulated (Inl (TimeoutException ''timed out''))) hi_request) = [hi_call]
   \<and> timeout_s hi_call = 120
   \<and> fst (chat (simulated (Inl (TimeoutException ''timed out''))) hi_request) =
     Inr \<lparr>resp_status = 504,
          content = JObj [(''error'',
            JStr ''Request timeout: timed out. RAG API is taking too long to respond.'')]\<rparr>"
  using timeout_gives_504 [of "simulated (Inl (TimeoutException ''timed out''))" hi_request
          hi_call "''timed out''"]
  by (simp add: hi_request_calls send_simulated)

subsection \<open>The body of the chat call\<close>

text \<open>
  C5. For every valid Chat request, Chat makes exactly one outbound call, a POST to
  the chat provider, and the JSON body of that call is \<open>{"message": m}\<close>, extended
  with the key \<open>conversation_id\<close> only when the inbound \<open>conversation_id\<close> is
  present and non-empty (for a value that is not a string: present and true in
  Python's sense); no null or empty \<open>conversation_id\<close> is ever sent.
\<close>

theorem chat_outbound_body:
  assumes "request_json req = Inr (JObj kvs)"
    and "map_of kvs ''message'' = Some m" and "truthy m"
  shows "snd (chat e req) =
     [\<lparr>verb = POST, url = ''https://rag-super-agent.onrender.com/chat/'',
       json_body = Some (JObj ((''message'', m) #
          (case map_of kvs ''conversation_id'' of
             None \<Rightarrow> []
           | Some (JStr c) \<Rightarrow> if c = [] then [] else [(''conversation_id'', JStr c)]
           | Some v \<Rightarrow> if truthy v then [(''conversation_id'', v)] else []))),
       headers = [(''Content-Type'', Some ''application/json'')],
       timeout_s = 120\<rparr>]"
  using assms
  by (simp add: chat_calls chat_try_valid chat_payload_def chat_call_def RAG_API_URL_def
        Let_def split: option.splits json.splits)

text \<open>
  The theorem at the bodies \<open>{"message": "hi", "conversation_id": "abc"}\<close> and
  \<open>{"message": "hi"}\<close>: the bodies sent are the same two objects.
\<close>

theorem chat_outbound_body_witness:
  "map json_body (snd (chat (simulated (Inr (code42_response 200)))
         (chat_request [(''message'', JStr ''hi''), (''conversation_id'', JStr ''abc'')]))) =
     [Some (JObj [(''message'', JStr ''hi''), (''conversation_id'', JStr ''abc'')])]
   \<and> map json_body (snd (chat (simulated (Inr (code42_response 200)))
         (chat_request [(''message'', JStr ''hi'')]))) =
     [Some (JObj [(''message'', JStr ''hi'')])]"
  using chat_outbound_body [of "chat_request [(''message'', JStr ''hi''),
            (''conversation_id'', JStr ''abc'')]"
          "[(''message'', JStr ''hi''), (''conversation_id'', JStr ''abc'')]" "JStr ''hi''"
          "simulated (Inr (code42_response 200))"]
        chat_outbound_body [of "chat_request [(''message'', JStr ''hi'')]"
          "[(''message'', JStr ''hi'')]" "JStr ''hi''" "simulated (Inr (code42_response 200))"]
  by (simp add: chat_request_def)

subsection \<open>Success passthrough\<close>




subsection \<open>Transport failures\<close>

text \<open>
  C7. When the outbound call fails with anything other than a timeout or an upstream
  HTTP-status error, every operation returns status 500 with a JSON body that has an
  \<open>error\<close> field. IssueStreamingToken and ListAllAvatars, and only they, add the
  stack trace under \<open>traceback\<close>; ListInteractiveAvatars, ListVoices and Chat return
  the short form \<open>{"error": ...}\<close>.
\<close>

theorem transport_failure_gives_500:
  "(send e (streaming_token_call e) = Inl (Exception m) \<longrightarrow>
      fst (get_streaming_token e) =
        Inr \<lparr>resp_status = 500,
             content = JObj [(''error'', JStr m),
                             (''traceback'', JStr (format_exc e (Exception m)))]\<rparr>)
   \<and> (send e (heygen_get_call e ''v2/avatars'') = Inl (Exception m) \<longrightarrow>
      fst (get_avatars e) =
        Inr \<lparr>resp_status = 500,
             content = JObj [(''error'', JStr m),
                             (''traceback'', JStr (format_exc e (Exception m)))]\<rparr>)
   \<and> (send e (heygen_get_call e ''v1/streaming/avatar.list'') = Inl (Exception m) \<longrightarrow>
      fst (get_interactive_avatars e) =
        Inr \<lparr>resp_status = 500, content = JObj [(''error'', JStr m)]\<rparr>)
   \<and> (send e (heygen_get_call e ''v2/voices'') = Inl (Exception m) \<longrightarrow>
      fst (get_voices e) =
        Inr \<lparr>resp_status = 500, content = JObj [(''error'', JStr m)]\<rparr>)
   \<and> (snd (chat e req) = [c] \<and> send e c = Inl (Exception m) \<longrightarrow>
      fst (chat e req) =
        Inr \<lparr>resp_status = 500, content = JObj [(''error'', JStr m)]\<rparr>)"
  by (simp add: get_streaming_token_def streaming_token_try_def get_avatars_def
        get_interactive_avatars_def get_voices_def heygen_get_raises chat_result chat_of_call
        JSONResponse_new_flat)

text \<open>The theorem at an upstream that refuses every connection.\<close>

theorem transport_failure_gives_500_witness:
  "fst (get_streaming_token (simulated (Inl (Exception ''All connection attempts failed'')))) =
     Inr \<lparr>resp_status = 500,
          content = JObj [(''error'', JStr ''All connection attempts failed''),
                          (''traceback'', JStr ''Traceback (most recent call last):'')]\<rparr>
   \<and> fst (get_avatars (simulated (Inl (Exception ''All connection attempts failed'')))) =
     Inr \<lparr>resp_status = 500,
          content = JObj [(''error'', JStr ''All connection attempts failed''),
                          (''traceback'', JStr ''Traceback (most recent call last):'')]\<rparr>
   \<and> fst (get_interactive_avatars
            (simulated (Inl (Exception ''All connection attempts failed'')))) =
     Inr \<lparr>resp_status = 500,
          content = JObj [(''error'', JStr ''All connection attempts failed'')]\<rparr>
   \<and> fst (get_voices (simulated (Inl (Exception ''All connection attempts failed'')))) =
     Inr \<lparr>resp_status = 500,
          content = JObj [(''error'', JStr ''All connection attempts failed'')]\<rparr>
   \<and> snd (chat (simulated (Inl (Exception ''All connection attempts failed''))) hi_request) =
     [hi_call]
   \<and> fst (chat (simulated (Inl (Exception ''All connection attempts failed''))) hi_request) =
     Inr \<lparr>resp_status = 500,
          content = JObj [(''error'', JStr ''All connection attempts failed'')]\<rparr>"
proof -
  have fmt: "format_exc (simulated out) x = ''Traceback (most recent call last):''" for out x
    by (simp add: simulated_def)
  show ?thesis
    using transport_failure_gives_500
            [of "simulated (Inl (Exception ''All connection attempts failed''))"
                "''All connection attempts failed''" hi_request hi_call]
    by (simp add: hi_request_calls send_simulated fmt)
qed

text \<open>
  A 2xx response whose body does not parse fails inside the \<open>try\<close> in the same way:
  \<open>res.json()\<close> raises, and the same \<open>except\<close> clause answers.
\<close>

lemma malformed_response_gives_500:
  assumes "json_result res = Inl m"
  shows
  "(send e (streaming_token_call e) = Inr res \<and> status_code res = 200 \<longrightarrow>
      fst (get_streaming_token e) =
        Inr \<lparr>resp_status = 500,
             content = JObj [(''error'', JStr m),
                             (''traceback'', JStr (format_exc e (Exception m)))]\<rparr>)
   \<and> (send e (heygen_get_call e ''v2/avatars'') = Inr res \<and> is_success res \<longrightarrow>
      fst (get_avatars e) =
        Inr \<lparr>resp_status = 500,
             content = JObj [(''error'', JStr m),
                             (''traceback'', JStr (format_exc e (Exception m)))]\<rparr>)
   \<and> (send e (heygen_get_call e ''v1/streaming/avatar.list'') = Inr res \<and> is_success res \<longrightarrow>
      fst (get_interactive_avatars e) =
        Inr \<lparr>resp_status = 500, content = JObj [(''error'', JStr m)]\<rparr>)
   \<and> (send e (heygen_get_call e ''v2/voices'') = Inr res \<and> is_success res \<longrightarrow>
      fst (get_voices e) =
        Inr \<lparr>resp_status = 500, content = JObj [(''error'', JStr m)]\<rparr>)
   \<and> (snd (chat e req) = [c] \<and> send e c = Inr res \<and> is_success res \<longrightarrow>
      fst (chat e req) =
        Inr \<lparr>resp_status = 500, content = JObj [(''error'', JStr m)]\<rparr>)"
  using assms
  by (simp add: get_streaming_token_def streaming_token_try_def get_avatars_def
        get_interactive_avatars_def get_voices_def heygen_get_def raise_for_status_def
        response_json_def chat_result chat_of_call JSONResponse_new_flat)

subsection \<open>The status check of \<open>get_streaming_token\<close>\<close>

text \<open>
  C8. IssueStreamingToken treats every upstream status other than exactly 200, other
  success statuses such as 201 and 204 included, as an error: it returns that status
  with the body
  \<open>{"error": <raw upstream text>, "status": <status>, "details": "Check backend logs"}\<close>,
  never the upstream body verbatim.
\<close>

theorem streaming_token_non_200:
  assumes "send e (streaming_token_call e) = Inr res" and "status_code res \<noteq> 200"
  shows "get_streaming_token e =
     (Inr \<lparr>resp_status = status_code res,
           content = JObj [(''error'', JStr (body_text res)),
                           (''status'', JInt (status_code res)),
                           (''details'', JStr ''Check backend logs'')]\<rparr>,
      [streaming_token_call e])"
  using assms
  by (simp add: get_streaming_token_def streaming_token_try_def built_def
        JSONResponse_new_flat)

text \<open>The theorem at an upstream 201 and an upstream 204.\<close>

theorem streaming_token_non_200_witness:
  "get_streaming_token (simulated (Inr (code42_response 201))) =
     (Inr \<lparr>resp_status = 201,
           content = JObj [(''error'', JStr code42_text), (''status'', JInt 201),
                           (''details'', JStr ''Check backend logs'')]\<rparr>,
      [streaming_token_call (simulated (Inr (code42_response 201)))])
   \<and> get_streaming_token (simulated (Inr (plain_response 204 []))) =
     (Inr \<lparr>resp_status = 204,
           content = JObj [(''error'', JStr []), (''status'', JInt 204),
                           (''details'', JStr ''Check backend logs'')]\<rparr>,
      [streaming_token_call (simulated (Inr (plain_response 204 [])))])"
  using streaming_token_non_200 [of "simulated (Inr (code42_response 201))" "code42_response 201"]
        streaming_token_non_200 [of "simulated (Inr (plain_response 204 []))" "plain_response 204 []"]
  by (simp add: send_simulated code42_response_def plain_response_def)

subsection \<open>Chat requests that do not parse, and false messages\<close>

text \<open>
  C9. For every inbound Chat request whose body does not parse as JSON, Chat returns
  status 500 with body \<open>{"error": <failure description>}\<close>, not a 400, and makes no
  outbound call.
\<close>

theorem chat_unparseable_request:
  assumes "request_json req = Inl m"
  shows "chat e req =
     (Inr \<lparr>resp_status = 500, content = JObj [(''error'', JStr m)]\<rparr>, [])"
  using assms by (simp add: chat_def chat_try_def JSONResponse_new_flat)

text \<open>The theorem at a body the decoder rejects at its first character.\<close>

theorem chat_unparseable_request_witness:
  "chat (simulated (Inr (code42_response 200)))
        \<lparr>request_json = Inl ''Expecting value: line 1 column 1 (char 0)''\<rparr> =
     (Inr \<lparr>resp_status = 500,
           content = JObj [(''error'', JStr ''Expecting value: line 1 column 1 (char 0)'')]\<rparr>,
      [])"
  using chat_unparseable_request
          [of "\<lparr>request_json = Inl ''Expecting value: line 1 column 1 (char 0)''\<rparr>"
              "''Expecting value: line 1 column 1 (char 0)''"
              "simulated (Inr (code42_response 200))"]
  by simp

text \<open>
  C10. The validation of Chat rejects every JSON value bound to \<open>message\<close> that is
  false in Python's sense (null, false, 0, the empty string among them): it returns
  400 with \<open>{"error": "Message is required"}\<close> and makes no outbound call.
\<close>

theorem chat_rejects_falsy_message:
  assumes "request_json req = Inr (JObj kvs)"
    and "map_of kvs ''message'' = Some v" and "\<not> truthy v"
  shows "chat e req =
     (Inr \<lparr>resp_status = 400, content = JObj [(''error'', JStr ''Message is required'')]\<rparr>,
      [])"
  using assms by (auto intro!: chat_falsy_message)

text \<open>The theorem at \<open>message\<close> bound to null, false, 0 and the empty string.\<close>

theorem chat_rejects_falsy_message_witness:
  "(\<not> truthy JNull \<and> \<not> truthy (JBool False) \<and> \<not> truthy (JInt 0) \<and> \<not> truthy (JStr ''''))
   \<and> chat (simulated (Inr (code42_response 200))) (chat_request [(''message'', JNull)]) =
     (Inr \<lparr>resp_status = 400, content = JObj [(''error'', JStr ''Message is required'')]\<rparr>,
      [])
   \<and> chat (simulated (Inr (code42_response 200))) (chat_request [(''message'', JBool False)]) =
     (Inr \<lparr>resp_status = 400, content = JObj [(''error'', JStr ''Message is required'')]\<rparr>,
      [])
   \<and> chat (simulated (Inr (code42_response 200))) (chat_request [(''message'', JInt 0)]) =
     (Inr \<lparr>resp_status = 400, content = JObj [(''error'', JStr ''Message is required'')]\<rparr>,
      [])
   \<and> chat (simulated (Inr (code42_response 200))) (chat_request [(''message'', JStr '''')]) =
     (Inr \<lparr>resp_status = 400, content = JObj [(''error'', JStr ''Message is required'')]\<rparr>,
      [])"
  using chat_rejects_falsy_message [of "chat_request [(''message'', JNull)]"
          "[(''message'', JNull)]" JNull "simulated (Inr (code42_response 200))"]
        chat_rejects_falsy_message [of "chat_request [(''message'', JBool False)]"
          "[(''message'', JBool False)]" "JBool False" "simulated (Inr (code42_response 200))"]
        chat_rejects_falsy_message [of "chat_request [(''message'', JInt 0)]"
          "[(''message'', JInt 0)]" "JInt 0" "simulated (Inr (code42_response 200))"]
        chat_rejects_falsy_message [of "chat_request [(''message'', JStr '''')]"
          "[(''message'', JStr '''')]" "JStr ''''" "simulated (Inr (code42_response 200))"]
  by (simp add: chat_request_def)

text \<open>
  A body that parses to something other than a JSON object has no fields at all:
  \<open>data.get\<close> raises, and the answer is the 500 of the last \<open>except\<close> clause.
\<close>

lemma chat_non_object_body:
  "chat e \<lparr>request_json = Inr (JArr xs)\<rparr> =
     (Inr \<lparr>resp_status = 500,
           content = JObj [(''error'',
             JStr ([CHR 0x27] @ ''list'' @ [CHR 0x27] @ '' object has no attribute ''
                   @ [CHR 0x27] @ ''get'' @ [CHR 0x27]))]\<rparr>, [])"
  by (simp add: chat_def chat_try_def py_get_def attribute_error_def JSONResponse_new_flat)

end
